theory Spec2Isabelle
  imports Main "HOL-Library.Word"
begin

section \<open>JavaScript values used by api.js\<close>

text \<open>
  A JavaScript string is a sequence of UTF-16 code units. A literal of the source that
  is plain ASCII is written \<open>js ''...''\<close>; the emoji of the button labels and of the
  messages are written as their code units.
\<close>

type_synonym jsstring = "16 word list"

definition js :: "string \<Rightarrow> jsstring" where
  "js s = map (\<lambda>c. of_nat (of_char c)) s"

text \<open>
  \<open>String.prototype.trim\<close> removes the WhiteSpace and LineTerminator code points of
  ECMAScript from both ends: TAB, LF, VT, FF, CR, SP, NBSP, U+1680, U+2000..U+200A,
  U+2028, U+2029, U+202F, U+205F, U+3000 and U+FEFF.
\<close>

definition is_ws :: "16 word \<Rightarrow> bool" where
  "is_ws c = (c \<in> {0x9, 0xA, 0xB, 0xC, 0xD, 0x20, 0xA0, 0x1680, 0x2028, 0x2029,
                    0x202F, 0x205F, 0x3000, 0xFEFF}
              \<or> (0x2000 \<le> c \<and> c \<le> 0x200A))"

definition trim :: "jsstring \<Rightarrow> jsstring" where
  "trim s = rev (dropWhile is_ws (rev (dropWhile is_ws s)))"

text \<open>
  The value of an optional string when it is truthy: \<open>null\<close>, \<open>undefined\<close> and the
  empty string are falsy. \<open>!v\<close> holds exactly when \<open>truthy v = None\<close>.
\<close>

definition truthy :: "jsstring option \<Rightarrow> jsstring option" where
  "truthy v = (case v of None \<Rightarrow> None | Some s \<Rightarrow> if s = [] then None else Some s)"

text \<open>\<open>v || ''\<close>\<close>

definition or_empty :: "jsstring option \<Rightarrow> jsstring" where
  "or_empty v = (case truthy v of None \<Rightarrow> [] | Some s \<Rightarrow> s)"

section \<open>Markup as cheerio sees it\<close>

text \<open>
  \<open>cheerio.load\<close> is a library call; a page is given here by the tree it builds: element
  nodes with a tag name, attributes and children, and text nodes.
\<close>

datatype node =
    Element jsstring "(jsstring \<times> jsstring) list" "node list"
  | TextNode jsstring

type_synonym document = "node list"

fun children :: "node \<Rightarrow> node list" where
  "children (Element t a cs) = cs"
| "children (TextNode s) = []"

text \<open>\<open>.attr(name)\<close> of one node: \<open>None\<close> is \<open>undefined\<close>.\<close>

fun attr :: "node \<Rightarrow> jsstring \<Rightarrow> jsstring option" where
  "attr (Element t a cs) n = map_of a n"
| "attr (TextNode s) n = None"

fun is_tag :: "jsstring \<Rightarrow> node \<Rightarrow> bool" where
  "is_tag t (Element t' a cs) = (t' = t)"
| "is_tag t (TextNode s) = False"

text \<open>\<open>.text()\<close> of one node: the text of its descendants, in document order.\<close>

fun text_of :: "node \<Rightarrow> jsstring" where
  "text_of (TextNode s) = s"
| "text_of (Element t a cs) = concat (map text_of cs)"

text \<open>A node and its descendants in document order.\<close>

fun subtree :: "node \<Rightarrow> node list" where
  "subtree (TextNode s) = [TextNode s]"
| "subtree (Element t a cs) = Element t a cs # concat (map subtree cs)"

text \<open>\<open>$(sel)\<close> for a selector that tests one node: the matching nodes of the document.\<close>

definition select :: "(node \<Rightarrow> bool) \<Rightarrow> document \<Rightarrow> node list" where
  "select p doc = filter p (concat (map subtree doc))"

text \<open>\<open>$(row).find(sel)\<close>: the matching proper descendants of one node.\<close>

definition find_in :: "(node \<Rightarrow> bool) \<Rightarrow> node \<Rightarrow> node list" where
  "find_in p n = select p (children n)"

text \<open>\<open>input[name="__RequestVerificationToken"]\<close>\<close>

definition is_token_input :: "node \<Rightarrow> bool" where
  "is_token_input n =
     (is_tag (js ''input'') n \<and>
      attr n (js ''name'') = Some (js ''__RequestVerificationToken''))"

text \<open>\<open>table#grades\<close>\<close>

definition is_grades_table :: "node \<Rightarrow> bool" where
  "is_grades_table n = (is_tag (js ''table'') n \<and> attr n (js ''id'') = Some (js ''grades''))"

text \<open>
  \<open>table#grades tr\<close>: the \<open>tr\<close> elements that have a \<open>table#grades\<close> ancestor, each
  once, in document order. The flag says whether such an ancestor has been passed.
\<close>

fun rows_under :: "bool \<Rightarrow> node \<Rightarrow> node list" where
  "rows_under inside (TextNode s) = []"
| "rows_under inside (Element t a cs) =
     (if inside \<and> t = js ''tr'' then [Element t a cs] else []) @
     concat (map (rows_under (inside \<or> is_grades_table (Element t a cs))) cs)"

definition select_grades_rows :: "document \<Rightarrow> node list" where
  "select_grades_rows doc = concat (map (rows_under False) doc)"

section \<open>The portal\<close>

datatype http_method = GET | POST

record request =
  url :: jsstring
  http_method :: http_method
  form :: "(jsstring \<times> jsstring) list"
  cookie :: "jsstring option"
  redirect_manual :: bool

text \<open>
  What \<open>fetch\<close> resolves to: the \<open>Set-Cookie\<close> header (\<open>None\<close> when the response has
  none) and the markup of the body (\<open>None\<close> when reading the body with \<open>.text()\<close> is
  rejected).
\<close>

record response =
  set_cookie :: "jsstring option"
  body_text :: "document option"

text \<open>
  The portal, as one call of the scraper meets it: the answer to each request, \<open>None\<close>
  when \<open>fetch\<close> is rejected. The three requests of a call have three different URLs.
\<close>

type_synonym portal = "request \<Rightarrow> response option"

text \<open>
  The exceptions of the source: \<open>FetchError\<close> is the rejection of \<open>fetch\<close> or of
  \<open>.text()\<close> (the spec's NetworkError), \<open>LoginFailed\<close> is the
  \<open>Error('Login failed: ...')\<close> of line 193 (the spec's AuthenticationError), and
  \<open>TypeError\<close> is a property access on \<open>undefined\<close>.
\<close>

datatype error = FetchError | LoginFailed | TypeError

record grade_record =
  course :: jsstring
  grade :: jsstring
  semester :: jsstring

definition login_page_url :: jsstring where
  "login_page_url = js ''https://portal.ju.edu.et/''"

definition login_url :: jsstring where
  "login_url = js ''https://portal.ju.edu.et/Account/Login''"

definition grades_url :: jsstring where
  "grades_url = js ''https://portal.ju.edu.et/Student/Results''"

definition login_page_request :: request where
  "login_page_request =
     \<lparr>url = login_page_url, http_method = GET, form = [], cookie = None,
      redirect_manual = False\<rparr>"

definition login_request :: "jsstring \<Rightarrow> jsstring \<Rightarrow> jsstring \<Rightarrow> request" where
  "login_request username password token =
     \<lparr>url = login_url, http_method = POST,
      form = [(js ''Username'', username), (js ''Password'', password),
              (js ''__RequestVerificationToken'', token)],
      cookie = None, redirect_manual = True\<rparr>"

definition grades_request :: "jsstring \<Rightarrow> request" where
  "grades_request cookies =
     \<lparr>url = grades_url, http_method = GET, form = [], cookie = Some cookies,
      redirect_manual = False\<rparr>"

text \<open>
  Line 179: \<open>.attr('value')\<close> reads the first matched element only, and is
  \<open>undefined\<close> when nothing matched or that element has no such attribute.
\<close>

definition csrfToken :: "document \<Rightarrow> jsstring option" where
  "csrfToken loginHtml =
     (case select is_token_input loginHtml of
        [] \<Rightarrow> None
      | n # ns \<Rightarrow> attr n (js ''value''))"

text \<open>
  Lines 208-210: \<open>$$(tds[i]).text().trim()\<close>. For \<open>i\<close> beyond the cells \<open>tds[i]\<close> is
  \<open>undefined\<close>, \<open>$$(undefined)\<close> is the empty selection and its text is the empty
  string.
\<close>

definition cell_text :: "node list \<Rightarrow> nat \<Rightarrow> jsstring" where
  "cell_text tds i = trim (if i < length tds then text_of (tds ! i) else [])"

text \<open>Line 205: \<open>$$(row).find('td')\<close>, the data cells of a row.\<close>

definition data_cells :: "node \<Rightarrow> node list" where
  "data_cells row = find_in (is_tag (js ''td'')) row"

text \<open>Lines 204-213: the \<open>.each\<close> loop over the rows, pushing onto \<open>grades\<close>.\<close>

fun each_row :: "node list \<Rightarrow> grade_record list \<Rightarrow> grade_record list" where
  "each_row [] grades = grades"
| "each_row (row # rows) grades =
     (let tds = data_cells row
      in each_row rows
           (if length tds \<noteq> 0
            then grades @ [\<lparr>course = cell_text tds 0, grade = cell_text tds 1,
                            semester = cell_text tds 2\<rparr>]
            else grades))"

definition scrape_grades :: "document \<Rightarrow> grade_record list" where
  "scrape_grades gradesHtml = each_row (select_grades_rows gradesHtml) []"

text \<open>
  Step 5 of the spec's algorithm, in its words: every row with at least one data cell
  gives one record, whose course, grade and semester are the trimmed texts of the first
  three cells, in this order; a row with no data cell gives nothing. A column whose cell
  is missing is the empty string.
\<close>

fun record_of_cells :: "node list \<Rightarrow> grade_record" where
  "record_of_cells (c # g # s # others) =
     \<lparr>course = trim (text_of c), grade = trim (text_of g), semester = trim (text_of s)\<rparr>"
| "record_of_cells [c, g] =
     \<lparr>course = trim (text_of c), grade = trim (text_of g), semester = []\<rparr>"
| "record_of_cells [c] = \<lparr>course = trim (text_of c), grade = [], semester = []\<rparr>"
| "record_of_cells [] = \<lparr>course = [], grade = [], semester = []\<rparr>"

definition rows_to_records :: "node list \<Rightarrow> grade_record list" where
  "rows_to_records rows =
     map (\<lambda>row. record_of_cells (data_cells row))
       (filter (\<lambda>row. data_cells row \<noteq> []) rows)"

text \<open>
  \<open>fetchGradesFromPortal\<close> (lines 174-216). The result is paired with the requests the
  call issued, in order.
\<close>

definition fetchGradesFromPortal ::
  "portal \<Rightarrow> jsstring \<Rightarrow> jsstring \<Rightarrow> request list \<times> (error + grade_record list)" where
  "fetchGradesFromPortal fetch username password =
     (case fetch login_page_request of
        None \<Rightarrow> ([login_page_request], Inl FetchError)
      | Some loginPage \<Rightarrow>
     (case body_text loginPage of
        None \<Rightarrow> ([login_page_request], Inl FetchError)
      | Some loginHtml \<Rightarrow>
     (let login = login_request username password (or_empty (csrfToken loginHtml))
      in case fetch login of
        None \<Rightarrow> ([login_page_request, login], Inl FetchError)
      | Some loginResp \<Rightarrow>
     (case truthy (set_cookie loginResp) of
        None \<Rightarrow> ([login_page_request, login], Inl LoginFailed)
      | Some cookies \<Rightarrow>
     (case fetch (grades_request cookies) of
        None \<Rightarrow> ([login_page_request, login, grades_request cookies], Inl FetchError)
      | Some gradesPage \<Rightarrow>
     (case body_text gradesPage of
        None \<Rightarrow> ([login_page_request, login, grades_request cookies], Inl FetchError)
      | Some gradesHtml \<Rightarrow>
          ([login_page_request, login, grades_request cookies],
           Inr (scrape_grades gradesHtml))))))))"

section \<open>The bot\<close>

text \<open>The values of the \<open>users\<close> map (lines 50-55).\<close>

record user =
  telegramId :: int
  firstName :: jsstring
  portalUsername :: "jsstring option"
  portalPassword :: "jsstring option"

text \<open>
  The values of the \<open>userStates\<close> map: the source stores \<open>{ state: 'awaiting_username' }\<close>
  or \<open>{ state: 'awaiting_password' }\<close> and nothing else. A user with no entry has no open
  stage (the spec's NONE).
\<close>

datatype stage = awaiting_username | awaiting_password

text \<open>The two in-memory maps of lines 19-20.\<close>

record bot =
  users :: "int \<rightharpoonup> user"
  userStates :: "int \<rightharpoonup> stage"

definition init :: bot where
  "init = \<lparr>users = Map.empty, userStates = Map.empty\<rparr>"

text \<open>
  An inbound message: \<open>msg.chat.id\<close>, \<open>msg.from.id\<close>, \<open>msg.from.first_name\<close> and
  \<open>msg.text\<close>, which is \<open>undefined\<close> (\<open>None\<close>) for a message that carries no text.
\<close>

record message =
  chat_id :: int
  from_id :: int
  from_first_name :: jsstring
  msg_text :: "jsstring option"

text \<open>
  One call of \<open>bot.sendMessage\<close>: the chat, the text, the \<open>parse_mode\<close> option and the
  rows of button labels of the reply keyboard, if any. Sending is taken to succeed.
\<close>

record outbound =
  to_chat :: int
  body :: jsstring
  parse_mode :: "jsstring option"
  keyboard :: "jsstring list list option"

definition sendMessage :: "int \<Rightarrow> jsstring \<Rightarrow> outbound" where
  "sendMessage chatId txt =
     \<lparr>to_chat = chatId, body = txt, parse_mode = None, keyboard = None\<rparr>"

definition sendMarkdown :: "int \<Rightarrow> jsstring \<Rightarrow> outbound" where
  "sendMarkdown chatId txt =
     \<lparr>to_chat = chatId, body = txt, parse_mode = Some (js ''Markdown''), keyboard = None\<rparr>"

text \<open>
  What handling one message did: the maps afterwards, the messages sent, the requests
  issued to the portal, and the exception that escaped the handler, if any. A handler
  that throws keeps the changes it made before.
\<close>

record outcome =
  state :: bot
  sent :: "outbound list"
  requests :: "request list"
  raised :: "error option"

definition show_grades_label :: jsstring where
  "show_grades_label = [0xD83D, 0xDCCA] @ js '' Show Grades''"

definition help_label :: jsstring where
  "help_label = [0x2139, 0xFE0F] @ js '' Help''"

definition txt_menu :: jsstring where
  "txt_menu = [0xD83C, 0xDF93] @ js '' *Jimma University Grade Viewer*'' @ [0xA, 0xA] @
     js ''Welcome! Choose an option below:''"

definition txt_welcome :: jsstring where
  "txt_welcome = [0xD83C, 0xDF93] @ js '' Welcome to JU Grade Viewer Bot!'' @ [0xA, 0xA] @
     js ''Click '' @ [0x22] @ show_grades_label @ [0x22] @
     js '' to check your grades securely.''"

definition txt_help :: jsstring where
  "txt_help = [0x2139, 0xFE0F] @ js '' *Help*'' @ [0xA, 0xA] @
     [0x2022] @ js '' Click '' @ [0x22] @ show_grades_label @ [0x22] @
       js '' to view your grades'' @ [0xA] @
     [0x2022] @ js '' Enter your JU portal username and password when prompted'' @ [0xA] @
     [0x2022] @ js '' Contact admin if you have login issues''"

definition txt_ask_username :: jsstring where
  "txt_ask_username = [0xD83D, 0xDCCC] @ js '' Please enter your JU portal *username*:''"

definition txt_ask_password :: jsstring where
  "txt_ask_password = [0xD83D, 0xDCCC] @ js '' Now enter your JU portal *password*:''"

definition txt_no_grades :: jsstring where
  "txt_no_grades = [0x26A0, 0xFE0F] @ js '' No grades found for your account.''"

definition txt_failed :: jsstring where
  "txt_failed = [0x274C] @
     js '' Failed to fetch grades. Check your credentials or try later.''"

definition txt_username_saved :: jsstring where
  "txt_username_saved = [0x2705] @ js '' Username saved! Now enter your *password*:''"

definition txt_password_saved :: jsstring where
  "txt_password_saved = [0x2705] @ js '' Password saved! Fetching your grades...''"

text \<open>Lines 109-112: the message built by \<open>forEach\<close>, one line per grade.\<close>

definition grade_line :: "grade_record \<Rightarrow> jsstring" where
  "grade_line g = [0x2022] @ js '' '' @ course g @ js '' | '' @ grade g @ js '' | '' @
     semester g @ [0xA]"

definition grades_message :: "grade_record list \<Rightarrow> jsstring" where
  "grades_message grades =
     foldl (\<lambda>message g. message @ grade_line g)
       ([0xD83D, 0xDCCA] @ js '' *Your Grades*'' @ [0xA, 0xA]) grades"

text \<open>\<open>showMainMenu\<close> (lines 25-40).\<close>

definition showMainMenu :: "int \<Rightarrow> outbound" where
  "showMainMenu chatId =
     \<lparr>to_chat = chatId, body = txt_menu, parse_mode = Some (js ''Markdown''),
      keyboard = Some [[show_grades_label, help_label]]\<rparr>"

text \<open>
  Lines 49-56 of \<open>handleStart\<close>: the profile is created unless the map has one (the
  spec's \<open>ensure\<close>).
\<close>

definition ensure :: "int \<Rightarrow> jsstring \<Rightarrow> (int \<rightharpoonup> user) \<Rightarrow> (int \<rightharpoonup> user)" where
  "ensure userId name us =
     (case us userId of
        None \<Rightarrow> us(userId \<mapsto> \<lparr>telegramId = userId, firstName = name,
                              portalUsername = None, portalPassword = None\<rparr>)
      | Some u \<Rightarrow> us)"

text \<open>\<open>handleStart\<close> (lines 45-64).\<close>

definition handleStart :: "message \<Rightarrow> bot \<Rightarrow> outcome" where
  "handleStart msg s =
     \<lparr>state = s\<lparr>users := ensure (from_id msg) (from_first_name msg) (users s)\<rparr>,
      sent = [sendMessage (chat_id msg) txt_welcome, showMainMenu (chat_id msg)],
      requests = [], raised = None\<rparr>"

text \<open>\<open>handleHelp\<close> (lines 69-77).\<close>

definition handleHelp :: "message \<Rightarrow> bot \<Rightarrow> outcome" where
  "handleHelp msg s =
     \<lparr>state = s, sent = [sendMarkdown (chat_id msg) txt_help], requests = [],
      raised = None\<rparr>"

text \<open>
  \<open>handleGrades\<close> (lines 82-120). \<open>users.get\<close> of an unknown user is \<open>undefined\<close>, and
  line 88 reads a property of it: a TypeError, outside the \<open>try\<close>. Every exception of
  the scraper is caught at line 116.
\<close>

definition handleGrades :: "portal \<Rightarrow> message \<Rightarrow> bot \<Rightarrow> outcome" where
  "handleGrades fetch msg s =
     (case users s (from_id msg) of
        None \<Rightarrow> \<lparr>state = s, sent = [], requests = [], raised = Some TypeError\<rparr>
      | Some u \<Rightarrow>
     (case truthy (portalUsername u) of
        None \<Rightarrow>
          \<lparr>state = s\<lparr>userStates := (userStates s)(from_id msg \<mapsto> awaiting_username)\<rparr>,
           sent = [sendMarkdown (chat_id msg) txt_ask_username], requests = [],
           raised = None\<rparr>
      | Some username \<Rightarrow>
     (case truthy (portalPassword u) of
        None \<Rightarrow>
          \<lparr>state = s\<lparr>userStates := (userStates s)(from_id msg \<mapsto> awaiting_password)\<rparr>,
           sent = [sendMarkdown (chat_id msg) txt_ask_password], requests = [],
           raised = None\<rparr>
      | Some password \<Rightarrow>
     (case fetchGradesFromPortal fetch username password of
        (reqs, Inr grades) \<Rightarrow>
          if length grades = 0
          then \<lparr>state = s, sent = [sendMessage (chat_id msg) txt_no_grades],
                requests = reqs, raised = None\<rparr>
          else \<lparr>state = s, sent = [sendMarkdown (chat_id msg) (grades_message grades)],
                requests = reqs, raised = None\<rparr>
      | (reqs, Inl err) \<Rightarrow>
          \<lparr>state = s, sent = [sendMessage (chat_id msg) txt_failed],
           requests = reqs, raised = None\<rparr>))))"

text \<open>
  \<open>handleMessage\<close> (lines 125-169). With an open stage, \<open>text.trim()\<close> of a message
  without text and the property write on a missing profile are TypeErrors.
\<close>

definition handleMessage :: "portal \<Rightarrow> message \<Rightarrow> bot \<Rightarrow> outcome" where
  "handleMessage fetch msg s =
     (case userStates s (from_id msg) of
        Some awaiting_username \<Rightarrow>
          (case (users s (from_id msg), msg_text msg) of
             (Some u, Some txt) \<Rightarrow>
               \<lparr>state = s\<lparr>users := (users s)(from_id msg \<mapsto> u\<lparr>portalUsername := Some (trim txt)\<rparr>),
                           userStates := (userStates s)(from_id msg \<mapsto> awaiting_password)\<rparr>,
                sent = [sendMarkdown (chat_id msg) txt_username_saved], requests = [],
                raised = None\<rparr>
           | _ \<Rightarrow> \<lparr>state = s, sent = [], requests = [], raised = Some TypeError\<rparr>)
      | Some awaiting_password \<Rightarrow>
          (case (users s (from_id msg), msg_text msg) of
             (Some u, Some txt) \<Rightarrow>
               (let s' = s\<lparr>users := (users s)(from_id msg \<mapsto> u\<lparr>portalPassword := Some (trim txt)\<rparr>),
                           userStates := (userStates s)(from_id msg := None)\<rparr>;
                    r = handleGrades fetch msg s'
                in r\<lparr>sent := sendMessage (chat_id msg) txt_password_saved # sent r\<rparr>)
           | _ \<Rightarrow> \<lparr>state = s, sent = [], requests = [], raised = Some TypeError\<rparr>)
      | None \<Rightarrow>
          if msg_text msg = Some (js ''/start'') then handleStart msg s
          else if msg_text msg = Some (js ''/help'') \<or> msg_text msg = Some help_label
          then handleHelp msg s
          else if msg_text msg = Some show_grades_label then handleGrades fetch msg s
          else \<lparr>state = s, sent = [showMainMenu (chat_id msg)], requests = [],
                raised = None\<rparr>)"

text \<open>
  The bot handles the messages of a list one after the other, each against the portal
  as it answers at that time.
\<close>

fun run :: "bot \<Rightarrow> (portal \<times> message) list \<Rightarrow> bot" where
  "run s [] = s"
| "run s ((fetch, msg) # rest) = run (state (handleMessage fetch msg s)) rest"

section \<open>Example pages and portals\<close>

definition el :: "string \<Rightarrow> (string \<times> string) list \<Rightarrow> node list \<Rightarrow> node" where
  "el t a cs = Element (js t) (map (\<lambda>(n, v). (js n, js v)) a) cs"

definition tnode :: "string \<Rightarrow> node" where
  "tnode s = TextNode (js s)"

text \<open>A login page with no anti-forgery field.\<close>

definition page_login_plain :: document where
  "page_login_plain =
     [el ''html'' [] [el ''body'' [] [el ''form'' []
        [el ''input'' [(''name'', ''Username'')] [],
         el ''input'' [(''name'', ''Password''), (''type'', ''password'')] []]]]]"

text \<open>A login page with the anti-forgery field, of value \<open>T\<close>.\<close>

definition page_login_token :: document where
  "page_login_token =
     [el ''html'' [] [el ''body'' [] [el ''form'' []
        [el ''input'' [(''name'', ''__RequestVerificationToken''), (''type'', ''hidden''),
                       (''value'', ''T'')] [],
         el ''input'' [(''name'', ''Username'')] [],
         el ''input'' [(''name'', ''Password''), (''type'', ''password'')] []]]]]"

text \<open>
  The grades page of the spec's example: one row with the cells CS101, A and Sem1 (with
  white space around the texts), and one row with no data cell.
\<close>

definition page_grades_cs101 :: document where
  "page_grades_cs101 =
     [el ''html'' [] [el ''body'' [] [el ''table'' [(''id'', ''grades'')] [el ''tbody'' []
        [el ''tr'' [] [el ''td'' [] [tnode '' CS101 ''], el ''td'' [] [el ''b'' [] [tnode ''A'']],
                       el ''td'' [] [tnode ''Sem1  '']],
         el ''tr'' [] [el ''th'' [] [], el ''th'' [] [], el ''th'' [] []]]]]]]"

text \<open>A grades page whose rows have one and two data cells.\<close>

definition page_grades_short :: document where
  "page_grades_short =
     [el ''table'' [(''id'', ''grades'')]
        [el ''tr'' [] [el ''td'' [] [tnode ''Math'']],
         el ''tr'' [] [el ''td'' [] [tnode ''Physics''], el ''td'' [] [tnode '' B+'']]]]"


text \<open>
  A portal that answers the login page, the login submission (with the given
  \<open>Set-Cookie\<close> header) and the grades page, and rejects every other request.
\<close>

definition portal_of :: "document \<Rightarrow> jsstring option \<Rightarrow> document \<Rightarrow> portal" where
  "portal_of loginHtml cookies gradesHtml req =
     (if url req = login_page_url
      then Some \<lparr>set_cookie = None, body_text = Some loginHtml\<rparr>
      else if url req = login_url
      then Some \<lparr>set_cookie = cookies, body_text = Some []\<rparr>
      else if url req = grades_url
      then Some \<lparr>set_cookie = None, body_text = Some gradesHtml\<rparr>
      else None)"

text \<open>A portal that cannot be reached.\<close>

definition portal_down :: portal where
  "portal_down req = None"

section \<open>Conversations\<close>

text \<open>
  The outcomes of handling the messages of a list in turn, from the maps \<open>s\<close>.
\<close>

fun outcomes :: "bot \<Rightarrow> (portal \<times> message) list \<Rightarrow> outcome list" where
  "outcomes s [] = []"
| "outcomes s ((fetch, msg) # rest) =
     handleMessage fetch msg s # outcomes (state (handleMessage fetch msg s)) rest"

text \<open>
  The stage of a user before the first message and after each message, and all the
  messages the bot sent.
\<close>

definition stages :: "int \<Rightarrow> bot \<Rightarrow> (portal \<times> message) list \<Rightarrow> stage option list" where
  "stages userId s evs = userStates s userId # map (\<lambda>r. userStates (state r) userId) (outcomes s evs)"

definition all_sent :: "bot \<Rightarrow> (portal \<times> message) list \<Rightarrow> outbound list" where
  "all_sent s evs = concat (map sent (outcomes s evs))"

text \<open>
  The actions of the spec's transition table, as the messages of the source that carry
  them: the username is asked for at line 90, the password at line 96 and, after the
  username was captured, at line 138.
\<close>

definition is_PromptForUsername :: "outbound \<Rightarrow> bool" where
  "is_PromptForUsername m = (body m = txt_ask_username)"

definition is_PromptForPassword :: "outbound \<Rightarrow> bool" where
  "is_PromptForPassword m = (body m = txt_ask_password \<or> body m = txt_username_saved)"

text \<open>A message with the given text, sent by a user in the private chat with the bot.\<close>

definition msg_of :: "int \<Rightarrow> jsstring \<Rightarrow> message" where
  "msg_of userId t =
     \<lparr>chat_id = userId, from_id = userId, from_first_name = js ''Abebe'', msg_text = Some t\<rparr>"

text \<open>The maps when one user has a profile with both credentials stored.\<close>

definition bot_with_credentials :: "int \<Rightarrow> jsstring \<Rightarrow> jsstring \<Rightarrow> bot" where
  "bot_with_credentials userId username password =
     \<lparr>users = [userId \<mapsto> \<lparr>telegramId = userId, firstName = js ''Abebe'',
                             portalUsername = Some username, portalPassword = Some password\<rparr>],
      userStates = Map.empty\<rparr>"

text \<open>The maps after a first \<open>/start\<close> of one user.\<close>

definition bot_started :: "int \<Rightarrow> bot" where
  "bot_started userId = run init [(portal_down, msg_of userId (js ''/start''))]"

text \<open>
  Two conversations of user 7 with the bot: \<open>/start\<close> and the grades button, which
  leaves the user asked for the username; and the same followed by the text \<open>alice\<close>,
  which leaves the user asked for the password.
\<close>

definition conv_until_username :: "(portal \<times> message) list" where
  "conv_until_username =
     [(portal_down, msg_of 7 (js ''/start'')), (portal_down, msg_of 7 show_grades_label)]"

definition conv_until_password :: "(portal \<times> message) list" where
  "conv_until_password = conv_until_username @ [(portal_down, msg_of 7 (js ''alice''))]"

section \<open>Facts about the scraper\<close>

lemma trim_Nil: "trim [] = []"
  by (simp add: trim_def)

text \<open>
  What \<open>trim\<close> removes is white space at the two ends, and what it leaves neither
  starts nor ends with white space.
\<close>

lemma trim_strips_both_ends:
  "\<exists>before after. s = before @ trim s @ after
     \<and> list_all is_ws before \<and> list_all is_ws after
     \<and> (trim s = [] \<or> (\<not> is_ws (hd (trim s)) \<and> \<not> is_ws (last (trim s))))"
proof -
  let ?t = "dropWhile is_ws s"
  let ?before = "takeWhile is_ws s"
  let ?after = "rev (takeWhile is_ws (rev ?t))"
  have split_front: "s = ?before @ ?t"
    by simp
  have "rev (takeWhile is_ws (rev ?t) @ dropWhile is_ws (rev ?t)) = ?t"
    by (simp only: takeWhile_dropWhile_id rev_rev_ident)
  then have "rev (dropWhile is_ws (rev ?t)) @ ?after = ?t"
    by (simp only: rev_append)
  then have split_back: "?t = trim s @ ?after"
    by (simp only: trim_def)
  have ws_before: "list_all is_ws ?before"
    by (auto simp: list_all_iff dest: set_takeWhileD)
  have ws_after: "list_all is_ws ?after"
    by (auto simp: list_all_iff dest: set_takeWhileD)
  have ends: "\<not> is_ws (hd (trim s)) \<and> \<not> is_ws (last (trim s))" if ne: "trim s \<noteq> []"
  proof -
    have rest: "dropWhile is_ws (rev ?t) \<noteq> []"
      using ne by (simp add: trim_def)
    then have "\<not> is_ws (hd (dropWhile is_ws (rev ?t)))"
      by (rule hd_dropWhile)
    then have last_ok: "\<not> is_ws (last (trim s))"
      using rest by (simp add: trim_def last_rev)
    have "?t \<noteq> []"
    proof
      assume "?t = []"
      then have "trim s @ ?after = []"
        using split_back by simp
      then show False
        using ne by simp
    qed
    then have "\<not> is_ws (hd ?t)"
      by (rule hd_dropWhile)
    moreover have "hd ?t = hd (trim s)"
      using split_back ne by (metis hd_append2)
    ultimately show ?thesis
      using last_ok by simp
  qed
  have "s = ?before @ trim s @ ?after"
    using split_front split_back by metis
  then show ?thesis
    using ws_before ws_after ends by blast
qed

text \<open>The rows selected are \<open>tr\<close> elements of the page.\<close>

lemma rows_under_are_rows:
  "r \<in> set (rows_under inside n) \<Longrightarrow> is_tag (js ''tr'') r \<and> r \<in> set (subtree n)"
proof (induction n arbitrary: inside)
  case (Element t a cs)
  then show ?case
    by (fastforce split: if_splits)
next
  case (TextNode s)
  then show ?case by simp
qed

lemma cells_record:
  "\<lparr>course = cell_text tds 0, grade = cell_text tds (Suc 0), semester = cell_text tds 2\<rparr>
   = record_of_cells tds"
  by (cases tds rule: record_of_cells.cases) (simp_all add: cell_text_def trim_Nil)

lemma each_row_acc: "each_row rows acc = acc @ rows_to_records rows"
proof (induction rows arbitrary: acc)
  case Nil
  show ?case by (simp add: rows_to_records_def)
next
  case (Cons row rows)
  show ?case
  proof (cases "data_cells row = []")
    case True
    then show ?thesis
      using Cons.IH [of acc] by (simp add: rows_to_records_def)
  next
    case False
    then show ?thesis
      using Cons.IH [of "acc @ [record_of_cells (data_cells row)]"]
      by (simp add: rows_to_records_def Let_def cells_record)
  qed
qed

lemma scrape_grades_rows: "scrape_grades doc = rows_to_records (select_grades_rows doc)"
  by (simp add: scrape_grades_def each_row_acc)

lemma fetch_reaches_grades:
  assumes "fetch login_page_request = Some loginPage"
    and "body_text loginPage = Some loginHtml"
    and "fetch (login_request u p (or_empty (csrfToken loginHtml))) = Some loginResp"
    and "truthy (set_cookie loginResp) = Some cookies"
    and "fetch (grades_request cookies) = Some gradesPage"
    and "body_text gradesPage = Some gradesHtml"
  shows "fetchGradesFromPortal fetch u p =
           ([login_page_request, login_request u p (or_empty (csrfToken loginHtml)),
             grades_request cookies], Inr (scrape_grades gradesHtml))"
  using assms by (simp add: fetchGradesFromPortal_def Let_def)

lemma urls_distinct:
  "login_page_url \<noteq> login_url" "login_page_url \<noteq> grades_url" "login_url \<noteq> grades_url"
  by (simp_all add: login_page_url_def login_url_def grades_url_def js_def)

lemma portal_of_simps:
  "portal_of lh c gh login_page_request = Some \<lparr>set_cookie = None, body_text = Some lh\<rparr>"
  "portal_of lh c gh (login_request u p t) = Some \<lparr>set_cookie = c, body_text = Some []\<rparr>"
  "portal_of lh c gh (grades_request k) = Some \<lparr>set_cookie = None, body_text = Some gh\<rparr>"
  using urls_distinct
  by (simp_all add: portal_of_def login_page_request_def login_request_def grades_request_def)



section \<open>Properties of the scraper\<close>

text \<open>
  C2: when the portal answers the login submission with a response that carries no
  \<open>Set-Cookie\<close> header, \<open>fetchGradesFromPortal\<close> fails with the login error of line
  193, which is not the error of a rejected \<open>fetch\<close>, and the requests it issued are the
  login page and the login submission only: none goes to the grades page.
\<close>

theorem login_without_cookie_fails:
  assumes "fetch login_page_request = Some loginPage"
    and "body_text loginPage = Some loginHtml"
    and "fetch (login_request username password (or_empty (csrfToken loginHtml))) = Some loginResp"
    and "set_cookie loginResp = None"
  shows "snd (fetchGradesFromPortal fetch username password) = Inl LoginFailed
       \<and> LoginFailed \<noteq> FetchError
       \<and> fst (fetchGradesFromPortal fetch username password) =
           [login_page_request, login_request username password (or_empty (csrfToken loginHtml))]
       \<and> grades_url \<notin> set (map url (fst (fetchGradesFromPortal fetch username password)))"
proof -
  have run: "fetchGradesFromPortal fetch username password =
      ([login_page_request, login_request username password (or_empty (csrfToken loginHtml))],
       Inl LoginFailed)"
    using assms by (simp add: fetchGradesFromPortal_def Let_def truthy_def)
  have "url login_page_request \<noteq> grades_url"
    using urls_distinct by (simp add: login_page_request_def)
  moreover have "url (login_request username password (or_empty (csrfToken loginHtml))) \<noteq> grades_url"
    using urls_distinct by (simp add: login_request_def)
  ultimately show ?thesis
    using run by auto
qed

text \<open>
  The theorem applied to a portal whose login page carries the token \<open>T\<close> and whose
  login response has no \<open>Set-Cookie\<close> header.
\<close>

theorem login_without_cookie_fails_witness:
  "snd (fetchGradesFromPortal (portal_of page_login_token None page_grades_cs101)
          (js ''alice'') (js ''secret'')) = Inl LoginFailed
   \<and> fst (fetchGradesFromPortal (portal_of page_login_token None page_grades_cs101)
          (js ''alice'') (js ''secret'')) =
       [login_page_request, login_request (js ''alice'') (js ''secret'') (js ''T'')]
   \<and> grades_url \<notin> set (map url (fst (fetchGradesFromPortal
          (portal_of page_login_token None page_grades_cs101) (js ''alice'') (js ''secret''))))"
proof -
  let ?portal = "portal_of page_login_token None page_grades_cs101"
  have tok: "or_empty (csrfToken page_login_token) = js ''T''"
    by code_simp
  have a1: "?portal login_page_request =
      Some \<lparr>set_cookie = None, body_text = Some page_login_token\<rparr>"
    by (simp add: portal_of_simps)
  have a2: "body_text \<lparr>set_cookie = None, body_text = Some page_login_token\<rparr> =
      Some page_login_token"
    by simp
  have a3: "?portal (login_request (js ''alice'') (js ''secret'')
      (or_empty (csrfToken page_login_token))) = Some \<lparr>set_cookie = None, body_text = Some []\<rparr>"
    by (simp add: portal_of_simps)
  have a4: "set_cookie \<lparr>set_cookie = None, body_text = Some []\<rparr> = None"
    by simp
  show ?thesis
    using login_without_cookie_fails [OF a1 a2 a3 a4] unfolding tok by blast
qed

text \<open>
  C6: when the call reaches the grades page, it returns one record for every row of
  \<open>table#grades\<close> that has at least one data cell, in the order of the rows, with
  course, grade and semester the trimmed texts of the first three cells, and nothing for
  a row with no data cell: the loop of lines 204-213 computes \<open>rows_to_records\<close>.
\<close>

theorem fetchGrades_one_record_per_row_with_cells:
  assumes "fetch login_page_request = Some loginPage"
    and "body_text loginPage = Some loginHtml"
    and "fetch (login_request username password (or_empty (csrfToken loginHtml))) = Some loginResp"
    and "truthy (set_cookie loginResp) = Some cookies"
    and "fetch (grades_request cookies) = Some gradesPage"
    and "body_text gradesPage = Some gradesHtml"
  shows "snd (fetchGradesFromPortal fetch username password) =
           Inr (rows_to_records (select_grades_rows gradesHtml))"
proof -
  have "fetchGradesFromPortal fetch username password =
      ([login_page_request, login_request username password (or_empty (csrfToken loginHtml)),
        grades_request cookies], Inr (scrape_grades gradesHtml))"
    using assms by (rule fetch_reaches_grades)
  then show ?thesis
    by (simp add: scrape_grades_rows)
qed

text \<open>
  The example of the spec: the rows (CS101, A, Sem1) and a row with no data cell give
  exactly the record CS101, A, Sem1.
\<close>

theorem fetchGrades_one_record_per_row_with_cells_witness:
  "snd (fetchGradesFromPortal (portal_of page_login_token (Some (js ''sid=1'')) page_grades_cs101)
          (js ''alice'') (js ''secret'')) =
     Inr [\<lparr>course = js ''CS101'', grade = js ''A'', semester = js ''Sem1''\<rparr>]"
proof -
  let ?portal = "portal_of page_login_token (Some (js ''sid=1'')) page_grades_cs101"
  let ?tok = "or_empty (csrfToken page_login_token)"
  have a1: "?portal login_page_request =
      Some \<lparr>set_cookie = None, body_text = Some page_login_token\<rparr>"
    by (simp add: portal_of_simps)
  have a2: "body_text \<lparr>set_cookie = None, body_text = Some page_login_token\<rparr> =
      Some page_login_token"
    by simp
  have a3: "?portal (login_request (js ''alice'') (js ''secret'') ?tok) =
      Some \<lparr>set_cookie = Some (js ''sid=1''), body_text = Some []\<rparr>"
    by (simp add: portal_of_simps)
  have a4: "truthy (set_cookie \<lparr>set_cookie = Some (js ''sid=1''), body_text = Some []\<rparr>) =
      Some (js ''sid=1'')"
    by (simp add: truthy_def js_def)
  have a5: "?portal (grades_request (js ''sid=1'')) =
      Some \<lparr>set_cookie = None, body_text = Some page_grades_cs101\<rparr>"
    by (simp add: portal_of_simps)
  have a6: "body_text \<lparr>set_cookie = None, body_text = Some page_grades_cs101\<rparr> =
      Some page_grades_cs101"
    by simp
  have rows: "rows_to_records (select_grades_rows page_grades_cs101) =
      [\<lparr>course = js ''CS101'', grade = js ''A'', semester = js ''Sem1''\<rparr>]"
    by code_simp
  show ?thesis
    using fetchGrades_one_record_per_row_with_cells [OF a1 a2 a3 a4 a5 a6]
    unfolding rows .
qed

text \<open>
  C8: when the login page has no anti-forgery field, the call goes on and its second
  request is the login submission: a POST to the login URL whose form carries the
  username, the password and the field \<open>__RequestVerificationToken\<close> with the empty
  string as its value. When fetching the login page fails (the \<open>fetch\<close> or the reading
  of its body is rejected), the whole call fails with that error after this one request.
\<close>

theorem missing_token_tolerated_login_page_failure_fatal:
  "(fetch login_page_request = Some loginPage \<and> body_text loginPage = Some loginHtml \<and>
      select is_token_input loginHtml = [] \<longrightarrow>
      take 2 (fst (fetchGradesFromPortal fetch username password)) =
        [login_page_request, login_request username password []]
      \<and> take 2 (fst (fetchGradesFromPortal fetch username password)) =
        [\<lparr>url = login_page_url, http_method = GET, form = [], cookie = None,
          redirect_manual = False\<rparr>,
         \<lparr>url = login_url, http_method = POST,
          form = [(js ''Username'', username), (js ''Password'', password),
                  (js ''__RequestVerificationToken'', [])],
          cookie = None, redirect_manual = True\<rparr>]
      \<and> map_of (form (fst (fetchGradesFromPortal fetch username password) ! 1))
            (js ''__RequestVerificationToken'') = Some []
      \<and> map_of (form (fst (fetchGradesFromPortal fetch username password) ! 1))
            (js ''Username'') = Some username
      \<and> map_of (form (fst (fetchGradesFromPortal fetch username password) ! 1))
            (js ''Password'') = Some password)
   \<and> (fetch login_page_request = None \<or>
      (fetch login_page_request = Some loginPage \<and> body_text loginPage = None) \<longrightarrow>
      fetchGradesFromPortal fetch username password = ([login_page_request], Inl FetchError))"
proof (intro conjI impI)
  assume ok: "fetch login_page_request = Some loginPage \<and> body_text loginPage = Some loginHtml \<and>
      select is_token_input loginHtml = []"
  then have "csrfToken loginHtml = None"
    by (simp add: csrfToken_def)
  then have tok: "or_empty (csrfToken loginHtml) = []"
    by (simp add: or_empty_def truthy_def)
  show first_two: "take 2 (fst (fetchGradesFromPortal fetch username password)) =
        [login_page_request, login_request username password []]"
    using ok tok
    by (simp add: fetchGradesFromPortal_def Let_def split: option.splits)
  then show "take 2 (fst (fetchGradesFromPortal fetch username password)) =
        [\<lparr>url = login_page_url, http_method = GET, form = [], cookie = None,
          redirect_manual = False\<rparr>,
         \<lparr>url = login_url, http_method = POST,
          form = [(js ''Username'', username), (js ''Password'', password),
                  (js ''__RequestVerificationToken'', [])],
          cookie = None, redirect_manual = True\<rparr>]"
    by (simp add: login_page_request_def login_request_def)
  have "length (take 2 (fst (fetchGradesFromPortal fetch username password))) = 2"
    using first_two by simp
  then have "take 2 (fst (fetchGradesFromPortal fetch username password)) ! 1 =
      fst (fetchGradesFromPortal fetch username password) ! 1"
    by simp
  then have second: "fst (fetchGradesFromPortal fetch username password) ! 1 =
      login_request username password []"
    using first_two by simp
  have names: "js ''__RequestVerificationToken'' \<noteq> js ''Username''"
      "js ''__RequestVerificationToken'' \<noteq> js ''Password''"
      "js ''Password'' \<noteq> js ''Username''"
    by (simp_all add: js_def)
  show "map_of (form (fst (fetchGradesFromPortal fetch username password) ! 1))
      (js ''__RequestVerificationToken'') = Some []"
    unfolding second using names by (simp add: login_request_def)
  show "map_of (form (fst (fetchGradesFromPortal fetch username password) ! 1))
      (js ''Username'') = Some username"
    unfolding second by (simp add: login_request_def)
  show "map_of (form (fst (fetchGradesFromPortal fetch username password) ! 1))
      (js ''Password'') = Some password"
    unfolding second using names by (simp add: login_request_def)
next
  assume "fetch login_page_request = None \<or>
      (fetch login_page_request = Some loginPage \<and> body_text loginPage = None)"
  then show "fetchGradesFromPortal fetch username password = ([login_page_request], Inl FetchError)"
    by (auto simp: fetchGradesFromPortal_def)
qed

text \<open>
  The theorem applied to a portal whose login page has no token field, and to a portal
  that cannot be reached.
\<close>

theorem missing_token_tolerated_login_page_failure_fatal_witness:
  "take 2 (fst (fetchGradesFromPortal (portal_of page_login_plain None []) (js ''alice'')
       (js ''secret''))) =
     [\<lparr>url = login_page_url, http_method = GET, form = [], cookie = None,
       redirect_manual = False\<rparr>,
      \<lparr>url = login_url, http_method = POST,
       form = [(js ''Username'', js ''alice''), (js ''Password'', js ''secret''),
               (js ''__RequestVerificationToken'', [])],
       cookie = None, redirect_manual = True\<rparr>]
   \<and> map_of (form (fst (fetchGradesFromPortal (portal_of page_login_plain None [])
         (js ''alice'') (js ''secret'')) ! 1)) (js ''__RequestVerificationToken'') = Some []
   \<and> fetchGradesFromPortal portal_down (js ''alice'') (js ''secret'') =
       ([login_page_request], Inl FetchError)"
proof -
  let ?portal = "portal_of page_login_plain None []"
  let ?page = "\<lparr>set_cookie = None, body_text = Some page_login_plain\<rparr>"
  have a1: "?portal login_page_request = Some ?page"
    by (simp add: portal_of_simps)
  have a2: "body_text ?page = Some page_login_plain"
    by simp
  have a3: "select is_token_input page_login_plain = []"
    by code_simp
  have b1: "portal_down login_page_request = None"
    by (simp add: portal_down_def)
  show ?thesis
    using missing_token_tolerated_login_page_failure_fatal [of ?portal ?page page_login_plain "js ''alice''" "js ''secret''"]
      missing_token_tolerated_login_page_failure_fatal [of portal_down ?page page_login_plain "js ''alice''" "js ''secret''"]
      a1 a2 a3 b1
    by blast
qed

text \<open>
  C10: a row of \<open>table#grades\<close> with exactly one or exactly two data cells still gives a
  record: the call succeeds and the record of the row is among the grades, with the
  empty string for the grade (one cell) and for the semester (one or two cells).
\<close>

theorem short_rows_are_padded:
  assumes "fetch login_page_request = Some loginPage"
    and "body_text loginPage = Some loginHtml"
    and "fetch (login_request username password (or_empty (csrfToken loginHtml))) = Some loginResp"
    and "truthy (set_cookie loginResp) = Some cookies"
    and "fetch (grades_request cookies) = Some gradesPage"
    and "body_text gradesPage = Some gradesHtml"
    and "row \<in> set (select_grades_rows gradesHtml)"
  shows "\<exists>grades. snd (fetchGradesFromPortal fetch username password) = Inr grades
       \<and> (data_cells row = [c] \<longrightarrow>
            \<lparr>course = trim (text_of c), grade = [], semester = []\<rparr> \<in> set grades)
       \<and> (data_cells row = [c, g] \<longrightarrow>
            \<lparr>course = trim (text_of c), grade = trim (text_of g), semester = []\<rparr> \<in> set grades)"
proof -
  let ?rows = "select_grades_rows gradesHtml"
  have "fetchGradesFromPortal fetch username password =
      ([login_page_request, login_request username password (or_empty (csrfToken loginHtml)),
        grades_request cookies], Inr (scrape_grades gradesHtml))"
    using assms(1-6) by (rule fetch_reaches_grades)
  then have res: "snd (fetchGradesFromPortal fetch username password) = Inr (rows_to_records ?rows)"
    by (simp add: scrape_grades_rows)
  have emitted: "record_of_cells (data_cells row) \<in> set (rows_to_records ?rows)"
    if "data_cells row \<noteq> []"
    using that assms(7) by (auto simp: rows_to_records_def)
  have one: "\<lparr>course = trim (text_of c), grade = [], semester = []\<rparr> \<in> set (rows_to_records ?rows)"
    if "data_cells row = [c]"
    using emitted that by simp
  have two: "\<lparr>course = trim (text_of c), grade = trim (text_of g), semester = []\<rparr>
      \<in> set (rows_to_records ?rows)"
    if "data_cells row = [c, g]"
    using emitted that by simp
  show ?thesis
    using res one two by blast
qed

text \<open>
  The theorem applied to a grades page with a row of one cell (Math) and a row of two
  cells (Physics, B+).
\<close>

theorem short_rows_are_padded_witness:
  "\<exists>grades. snd (fetchGradesFromPortal
          (portal_of page_login_plain (Some (js ''sid=1'')) page_grades_short)
          (js ''alice'') (js ''secret'')) = Inr grades
     \<and> \<lparr>course = js ''Math'', grade = [], semester = []\<rparr> \<in> set grades
     \<and> \<lparr>course = js ''Physics'', grade = js ''B+'', semester = []\<rparr> \<in> set grades"
proof -
  let ?portal = "portal_of page_login_plain (Some (js ''sid=1'')) page_grades_short"
  let ?tok = "or_empty (csrfToken page_login_plain)"
  let ?math = "el ''td'' [] [tnode ''Math'']"
  let ?physics = "el ''td'' [] [tnode ''Physics'']"
  let ?bplus = "el ''td'' [] [tnode '' B+'']"
  let ?row1 = "el ''tr'' [] [?math]"
  let ?row2 = "el ''tr'' [] [?physics, ?bplus]"
  have a1: "?portal login_page_request =
      Some \<lparr>set_cookie = None, body_text = Some page_login_plain\<rparr>"
    by (simp add: portal_of_simps)
  have a2: "body_text \<lparr>set_cookie = None, body_text = Some page_login_plain\<rparr> =
      Some page_login_plain"
    by simp
  have a3: "?portal (login_request (js ''alice'') (js ''secret'') ?tok) =
      Some \<lparr>set_cookie = Some (js ''sid=1''), body_text = Some []\<rparr>"
    by (simp add: portal_of_simps)
  have a4: "truthy (set_cookie \<lparr>set_cookie = Some (js ''sid=1''), body_text = Some []\<rparr>) =
      Some (js ''sid=1'')"
    by (simp add: truthy_def js_def)
  have a5: "?portal (grades_request (js ''sid=1'')) =
      Some \<lparr>set_cookie = None, body_text = Some page_grades_short\<rparr>"
    by (simp add: portal_of_simps)
  have a6: "body_text \<lparr>set_cookie = None, body_text = Some page_grades_short\<rparr> =
      Some page_grades_short"
    by simp
  have rows: "select_grades_rows page_grades_short = [?row1, ?row2]"
    by code_simp
  have r1: "?row1 \<in> set (select_grades_rows page_grades_short)"
    unfolding rows by simp
  have r2: "?row2 \<in> set (select_grades_rows page_grades_short)"
    unfolding rows by simp
  have d1: "data_cells ?row1 = [?math]"
    by code_simp
  have d2: "data_cells ?row2 = [?physics, ?bplus]"
    by code_simp
  have t: "trim (text_of ?math) = js ''Math''" "trim (text_of ?physics) = js ''Physics''"
      "trim (text_of ?bplus) = js ''B+''"
    by code_simp+
  show ?thesis
    using short_rows_are_padded [OF a1 a2 a3 a4 a5 a6 r1, of ?math ?bplus]
      short_rows_are_padded [OF a1 a2 a3 a4 a5 a6 r2, of ?physics ?bplus]
      d1 d2
    unfolding t by auto
qed

section \<open>Facts about the handlers\<close>

lemma handleGrades_with_credentials:
  assumes "users s (from_id msg) = Some u"
    and "truthy (portalUsername u) = Some username"
    and "truthy (portalPassword u) = Some password"
  shows "state (handleGrades fetch msg s) = s"
    and "requests (handleGrades fetch msg s) = fst (fetchGradesFromPortal fetch username password)"
    and "raised (handleGrades fetch msg s) = None"
    and "sent (handleGrades fetch msg s) =
          [case snd (fetchGradesFromPortal fetch username password) of
             Inl err \<Rightarrow> sendMessage (chat_id msg) txt_failed
           | Inr grades \<Rightarrow>
               if grades = [] then sendMessage (chat_id msg) txt_no_grades
               else sendMarkdown (chat_id msg) (grades_message grades)]"
  using assms
  by (auto simp: handleGrades_def split: prod.splits sum.splits)

lemma grades_message_concat:
  "grades_message grades =
     [0xD83D, 0xDCCA] @ js '' *Your Grades*'' @ [0xA, 0xA] @ concat (map grade_line grades)"
proof -
  have "foldl (\<lambda>message g. message @ grade_line g) acc grades =
      acc @ concat (map grade_line grades)" for acc
    by (induction grades arbitrary: acc) simp_all
  then show ?thesis
    by (simp add: grades_message_def)
qed

lemma grades_message_starts:
  "\<exists>rest. grades_message grades = 0xD83D # 0xDCCA # rest"
  by (simp add: grades_message_concat)

lemma fetched_reply_no_prompt:
  fixes grades :: "grade_record list"
  shows "txt_failed \<noteq> txt_ask_username" "txt_failed \<noteq> txt_ask_password"
    "txt_failed \<noteq> txt_username_saved"
    "txt_no_grades \<noteq> txt_ask_username" "txt_no_grades \<noteq> txt_ask_password"
    "txt_no_grades \<noteq> txt_username_saved"
    "grades_message grades \<noteq> txt_ask_username" "grades_message grades \<noteq> txt_ask_password"
    "grades_message grades \<noteq> txt_username_saved"
    "txt_no_grades \<noteq> txt_failed"
  using grades_message_starts [of grades]
  by (auto simp: txt_failed_def txt_ask_username_def txt_ask_password_def
      txt_username_saved_def txt_no_grades_def)

lemma handleGrades_no_prompt:
  assumes "users s (from_id msg) = Some u"
    and "truthy (portalUsername u) = Some username"
    and "truthy (portalPassword u) = Some password"
  shows "filter is_PromptForUsername (sent (handleGrades fetch msg s)) = []"
    and "filter is_PromptForPassword (sent (handleGrades fetch msg s)) = []"
  using fetched_reply_no_prompt
  by (auto simp: handleGrades_with_credentials(4) [OF assms] is_PromptForUsername_def
      is_PromptForPassword_def sendMessage_def sendMarkdown_def split: sum.splits)

lemma login_requests_carry_credentials:
  assumes "r \<in> set (fst (fetchGradesFromPortal fetch username password))"
    and "url r = login_url"
  shows "map_of (form r) (js ''Username'') = Some username
       \<and> map_of (form r) (js ''Password'') = Some password"
proof -
  have names: "js ''Password'' \<noteq> js ''Username''"
    by (simp add: js_def)
  have "\<exists>token. r = login_request username password token"
    using assms urls_distinct
    by (auto simp: fetchGradesFromPortal_def Let_def login_page_request_def grades_request_def
        split: option.splits)
  then show ?thesis
    using names by (auto simp: login_request_def)
qed

section \<open>Properties of the handlers\<close>



text \<open>
  C5: when the grade fetch of a user fails, with whatever error, \<open>handleGrades\<close> leaves
  both maps as they were, so the stored username and password are unchanged and no stage
  is opened, and it sends the failure text. A following "Show Grades" message of the
  user issues the requests of a fetch with the same stored credentials (every login
  submission among them carries them), sends no prompt and opens no stage.
\<close>

theorem failed_fetch_keeps_credentials_and_stage:
  assumes "users s (from_id msg) = Some u"
    and "truthy (portalUsername u) = Some username"
    and "truthy (portalPassword u) = Some password"
    and "userStates s (from_id msg) = None"
    and "snd (fetchGradesFromPortal fetch username password) = Inl err"
    and "from_id again = from_id msg"
    and "msg_text again = Some show_grades_label"
  shows "state (handleGrades fetch msg s) = s
       \<and> users (state (handleGrades fetch msg s)) (from_id msg) = Some u
       \<and> userStates (state (handleGrades fetch msg s)) (from_id msg) = None
       \<and> sent (handleGrades fetch msg s) = [sendMessage (chat_id msg) txt_failed]
       \<and> raised (handleGrades fetch msg s) = None
       \<and> requests (handleMessage fetch' again (state (handleGrades fetch msg s))) =
           fst (fetchGradesFromPortal fetch' username password)
       \<and> (\<forall>r \<in> set (requests (handleMessage fetch' again (state (handleGrades fetch msg s)))).
             url r = login_url \<longrightarrow>
             map_of (form r) (js ''Username'') = Some username \<and>
             map_of (form r) (js ''Password'') = Some password)
       \<and> filter is_PromptForUsername
             (sent (handleMessage fetch' again (state (handleGrades fetch msg s)))) = []
       \<and> filter is_PromptForPassword
             (sent (handleMessage fetch' again (state (handleGrades fetch msg s)))) = []
       \<and> userStates (state (handleMessage fetch' again (state (handleGrades fetch msg s))))
             (from_id msg) = None"
proof -
  note creds = assms(1-3)
  have same: "state (handleGrades fetch msg s) = s"
    using creds by (rule handleGrades_with_credentials(1))
  have reply: "sent (handleGrades fetch msg s) = [sendMessage (chat_id msg) txt_failed]"
    using handleGrades_with_credentials(4) [OF creds, of fetch] assms(5) by simp
  have quiet: "raised (handleGrades fetch msg s) = None"
    using creds by (rule handleGrades_with_credentials(3))
  have labels: "show_grades_label \<noteq> js ''/start''" "show_grades_label \<noteq> js ''/help''"
      "show_grades_label \<noteq> help_label"
    by (simp_all add: show_grades_label_def help_label_def js_def)
  have retry: "handleMessage fetch' again s = handleGrades fetch' again s"
    using assms(4,6,7) labels by (simp add: handleMessage_def)
  have creds': "users s (from_id again) = Some u"
    using assms(1,6) by simp
  have reqs: "requests (handleGrades fetch' again s) =
      fst (fetchGradesFromPortal fetch' username password)"
    using creds' assms(2,3) by (rule handleGrades_with_credentials(2))
  have carried: "\<forall>r \<in> set (requests (handleGrades fetch' again s)).
      url r = login_url \<longrightarrow>
        map_of (form r) (js ''Username'') = Some username \<and>
        map_of (form r) (js ''Password'') = Some password"
    unfolding reqs using login_requests_carry_credentials by blast
  have noprompt: "filter is_PromptForUsername (sent (handleGrades fetch' again s)) = []"
      "filter is_PromptForPassword (sent (handleGrades fetch' again s)) = []"
    using creds' assms(2,3) by (rule handleGrades_no_prompt)+
  have closed: "userStates (state (handleGrades fetch' again s)) (from_id msg) = None"
    using handleGrades_with_credentials(1) [OF creds' assms(2,3), of fetch'] assms(4) by simp
  show ?thesis
    unfolding same retry
    using assms(1,4) reply quiet reqs carried noprompt closed by simp
qed

text \<open>
  The theorem applied to a user whose login is refused (no \<open>Set-Cookie\<close> header) and who
  asks again when the portal accepts the login.
\<close>

theorem failed_fetch_keeps_credentials_and_stage_witness:
  "state (handleGrades (portal_of page_login_plain None []) (msg_of 7 show_grades_label)
      (bot_with_credentials 7 (js ''alice'') (js ''secret''))) =
     bot_with_credentials 7 (js ''alice'') (js ''secret'')
   \<and> sent (handleGrades (portal_of page_login_plain None []) (msg_of 7 show_grades_label)
      (bot_with_credentials 7 (js ''alice'') (js ''secret''))) = [sendMessage 7 txt_failed]
   \<and> requests (handleMessage (portal_of page_login_plain (Some (js ''sid=1'')) page_grades_cs101)
        (msg_of 7 show_grades_label)
        (state (handleGrades (portal_of page_login_plain None []) (msg_of 7 show_grades_label)
           (bot_with_credentials 7 (js ''alice'') (js ''secret''))))) =
      [login_page_request, login_request (js ''alice'') (js ''secret'') [],
       grades_request (js ''sid=1'')]
   \<and> filter is_PromptForUsername
        (sent (handleMessage (portal_of page_login_plain (Some (js ''sid=1'')) page_grades_cs101)
           (msg_of 7 show_grades_label)
           (state (handleGrades (portal_of page_login_plain None []) (msg_of 7 show_grades_label)
              (bot_with_credentials 7 (js ''alice'') (js ''secret'')))))) = []
   \<and> filter is_PromptForPassword
        (sent (handleMessage (portal_of page_login_plain (Some (js ''sid=1'')) page_grades_cs101)
           (msg_of 7 show_grades_label)
           (state (handleGrades (portal_of page_login_plain None []) (msg_of 7 show_grades_label)
              (bot_with_credentials 7 (js ''alice'') (js ''secret'')))))) = []"
proof -
  let ?bad = "portal_of page_login_plain None []"
  let ?good = "portal_of page_login_plain (Some (js ''sid=1'')) page_grades_cs101"
  let ?s = "bot_with_credentials 7 (js ''alice'') (js ''secret'')"
  let ?u = "\<lparr>telegramId = 7, firstName = js ''Abebe'', portalUsername = Some (js ''alice''),
      portalPassword = Some (js ''secret'')\<rparr>"
  let ?msg = "msg_of 7 show_grades_label"
  have tok: "or_empty (csrfToken page_login_plain) = []"
    by code_simp
  have a1: "users ?s (from_id ?msg) = Some ?u"
    by (simp add: bot_with_credentials_def msg_of_def)
  have a2: "truthy (portalUsername ?u) = Some (js ''alice'')"
    by (simp add: truthy_def js_def)
  have a3: "truthy (portalPassword ?u) = Some (js ''secret'')"
    by (simp add: truthy_def js_def)
  have a4: "userStates ?s (from_id ?msg) = None"
    by (simp add: bot_with_credentials_def)
  have a5: "snd (fetchGradesFromPortal ?bad (js ''alice'') (js ''secret'')) = Inl LoginFailed"
    by (simp add: fetchGradesFromPortal_def portal_of_simps truthy_def)
  have a6: "from_id ?msg = from_id ?msg"
    by simp
  have a7: "msg_text ?msg = Some show_grades_label"
    by (simp add: msg_of_def)
  have good: "fst (fetchGradesFromPortal ?good (js ''alice'') (js ''secret'')) =
      [login_page_request, login_request (js ''alice'') (js ''secret'') [],
       grades_request (js ''sid=1'')]"
    by (simp add: fetchGradesFromPortal_def portal_of_simps truthy_def tok js_def)
  have chat: "chat_id ?msg = 7"
    by (simp add: msg_of_def)
  show ?thesis
    using failed_fetch_keeps_credentials_and_stage [OF a1 a2 a3 a4 a5 a6 a7, of ?good]
    unfolding good chat by blast
qed

section \<open>Facts about conversations\<close>

text \<open>
  A stage is only ever opened by \<open>handleGrades\<close>, after it found the profile, and no
  profile is ever removed: in every state the bot reaches from the empty maps, a user
  with an open stage has a profile.
\<close>

lemma handleGrades_users: "users (state (handleGrades fetch msg s)) = users s"
  by (auto simp: handleGrades_def split: option.splits prod.splits sum.splits)

lemma handleGrades_stage:
  "userStates (state (handleGrades fetch msg s)) i = Some st \<Longrightarrow>
     userStates s i = Some st \<or> (i = from_id msg \<and> users s i \<noteq> None)"
  by (auto simp: handleGrades_def split: option.splits prod.splits sum.splits if_splits)

lemma ensure_keeps: "us i = Some u \<Longrightarrow> ensure j n us i = Some u"
  by (cases "us j") (auto simp: ensure_def)

lemma handleMessage_stage_has_profile:
  assumes inv: "\<And>i st. userStates s i = Some st \<Longrightarrow> users s i \<noteq> None"
    and open_stage: "userStates (state (handleMessage fetch msg s)) i = Some st"
  shows "users (state (handleMessage fetch msg s)) i \<noteq> None"
proof (cases "userStates s (from_id msg)")
  case None
  show ?thesis
  proof (cases "msg_text msg = Some (js ''/start'')")
    case True
    then have "userStates s i = Some st"
      using open_stage None by (simp add: handleMessage_def handleStart_def)
    then obtain u where "users s i = Some u"
      using inv by blast
    then show ?thesis
      using True None by (simp add: handleMessage_def handleStart_def ensure_keeps)
  next
    case False
    show ?thesis
    proof (cases "msg_text msg = Some show_grades_label
        \<and> \<not> (msg_text msg = Some (js ''/help'') \<or> msg_text msg = Some help_label)")
      case True
      then have eq: "handleMessage fetch msg s = handleGrades fetch msg s"
        using None False by (auto simp: handleMessage_def)
      show ?thesis
        using handleGrades_stage [of fetch msg s i st] open_stage inv
        unfolding eq handleGrades_users by blast
    next
      case no_grades: False
      then have "state (handleMessage fetch msg s) = s"
        using None False by (auto simp: handleMessage_def handleHelp_def)
      then show ?thesis
        using open_stage inv by simp
    qed
  qed
next
  case (Some cur)
  show ?thesis
  proof (cases "\<exists>u t. users s (from_id msg) = Some u \<and> msg_text msg = Some t")
    case False
    then have "state (handleMessage fetch msg s) = s"
      using Some by (cases cur) (auto simp: handleMessage_def split: option.splits)
    then show ?thesis
      using open_stage inv by simp
  next
    case True
    then obtain u t where u: "users s (from_id msg) = Some u" and t: "msg_text msg = Some t"
      by blast
    show ?thesis
    proof (cases cur)
      case awaiting_username
      then show ?thesis
        using Some u t open_stage inv
        by (auto simp: handleMessage_def split: if_splits)
    next
      case awaiting_password
      let ?s' = "s\<lparr>users := (users s)(from_id msg \<mapsto> u\<lparr>portalPassword := Some (trim t)\<rparr>),
                   userStates := (userStates s)(from_id msg := None)\<rparr>"
      have st: "state (handleMessage fetch msg s) = state (handleGrades fetch msg ?s')"
        using Some u t awaiting_password by (simp add: handleMessage_def Let_def)
      have "userStates ?s' i = Some st \<or> (i = from_id msg \<and> users ?s' i \<noteq> None)"
        using handleGrades_stage [of fetch msg ?s' i st] open_stage unfolding st by blast
      then have "users ?s' i \<noteq> None"
        using inv by (auto split: if_splits)
      then show ?thesis
        unfolding st handleGrades_users .
    qed
  qed
qed

lemma run_stage_has_profile_from:
  assumes "\<And>i st. userStates s i = Some st \<Longrightarrow> users s i \<noteq> None"
    and "userStates (run s evs) i = Some st"
  shows "users (run s evs) i \<noteq> None"
  using assms
proof (induction evs arbitrary: s)
  case Nil
  then show ?case by simp
next
  case (Cons ev evs)
  obtain fetch msg where ev: "ev = (fetch, msg)"
    by (cases ev)
  have step: "\<And>i st. userStates (state (handleMessage fetch msg s)) i = Some st \<Longrightarrow>
      users (state (handleMessage fetch msg s)) i \<noteq> None"
    using handleMessage_stage_has_profile [of s fetch msg] Cons.prems(1) by blast
  show ?case
    using Cons.IH [of "state (handleMessage fetch msg s)"] step Cons.prems(2)
    unfolding ev by simp
qed

lemma run_stage_has_profile:
  "userStates (run init evs) i = Some st \<Longrightarrow> \<exists>u. users (run init evs) i = Some u"
  using run_stage_has_profile_from [of init evs i st]
  by (auto simp: init_def)

lemma dispatch_texts_distinct:
  fixes grades :: "grade_record list"
  shows "txt_ask_username \<notin> {txt_welcome, txt_menu, txt_help}"
    "txt_ask_password \<notin> {txt_welcome, txt_menu, txt_help}"
    "txt_no_grades \<notin> {txt_welcome, txt_menu, txt_help}"
    "txt_failed \<notin> {txt_welcome, txt_menu, txt_help}"
    "txt_password_saved \<notin> {txt_welcome, txt_menu, txt_help}"
    "txt_username_saved \<notin> {txt_welcome, txt_menu, txt_help}"
    "grades_message grades \<notin> {txt_welcome, txt_menu, txt_help}"
  using grades_message_starts [of grades]
  by (auto simp: txt_ask_username_def txt_ask_password_def txt_no_grades_def txt_failed_def
      txt_password_saved_def txt_username_saved_def txt_welcome_def txt_menu_def txt_help_def)

lemma handleGrades_sends_no_dispatch_text:
  "m \<in> set (sent (handleGrades fetch msg s)) \<Longrightarrow> body m \<notin> {txt_welcome, txt_menu, txt_help}"
  using dispatch_texts_distinct
  by (auto simp: handleGrades_def sendMessage_def sendMarkdown_def
      split: option.splits prod.splits sum.splits if_splits)

lemma handleGrades_raises_only_without_profile:
  "users s (from_id msg) = Some u \<Longrightarrow> raised (handleGrades fetch msg s) = None"
  by (auto simp: handleGrades_def split: option.splits prod.splits sum.splits)

lemma labels_distinct:
  "show_grades_label \<noteq> js ''/start''" "show_grades_label \<noteq> js ''/help''"
  "show_grades_label \<noteq> help_label" "help_label \<noteq> js ''/start''"
  "js ''/help'' \<noteq> js ''/start''"
  by (simp_all add: show_grades_label_def help_label_def js_def)

lemma trim_examples:
  "trim (js ''alice'') = js ''alice''" "trim (js ''secret'') = js ''secret''"
  "trim (js ''/help'') = js ''/help''" "trim (js ''/start'') = js ''/start''"
  "trim (js ''   '') = []"
  by code_simp+

lemma prompt_texts_distinct:
  "txt_ask_username \<noteq> txt_ask_password" "txt_ask_username \<noteq> txt_username_saved"
  "txt_password_saved \<noteq> txt_ask_username" "txt_password_saved \<noteq> txt_ask_password"
  "txt_password_saved \<noteq> txt_username_saved" "txt_ask_password \<noteq> txt_username_saved"
  by (simp_all add: txt_ask_username_def txt_ask_password_def txt_username_saved_def
      txt_password_saved_def js_def)

lemma conv_until_username_state:
  "run init conv_until_username =
     \<lparr>users = [7 \<mapsto> \<lparr>telegramId = 7, firstName = js ''Abebe'', portalUsername = None,
                       portalPassword = None\<rparr>],
      userStates = [7 \<mapsto> awaiting_username]\<rparr>"
  using labels_distinct
  by (simp add: conv_until_username_def handleMessage_def handleStart_def handleGrades_def
      ensure_def truthy_def init_def msg_of_def)

lemma conv_until_password_state:
  "run init conv_until_password =
     \<lparr>users = [7 \<mapsto> \<lparr>telegramId = 7, firstName = js ''Abebe'',
                       portalUsername = Some (js ''alice''), portalPassword = None\<rparr>],
      userStates = [7 \<mapsto> awaiting_password]\<rparr>"
proof -
  have "run init conv_until_password =
      state (handleMessage portal_down (msg_of 7 (js ''alice'')) (run init conv_until_username))"
    by (simp add: conv_until_password_def conv_until_username_def)
  then show ?thesis
    unfolding conv_until_username_state
    by (simp add: handleMessage_def msg_of_def trim_examples)
qed

lemma bot_started_state:
  "bot_started 7 =
     \<lparr>users = [7 \<mapsto> \<lparr>telegramId = 7, firstName = js ''Abebe'', portalUsername = None,
                       portalPassword = None\<rparr>],
      userStates = Map.empty\<rparr>"
  by (simp add: bot_started_def handleMessage_def handleStart_def ensure_def init_def msg_of_def)

section \<open>Properties of the conversation\<close>

text \<open>
  C1: the claim is that a profile exists for every user who has sent a message, so that
  every handler that looks the profile up finds one. The source creates the profile on
  \<open>/start\<close> only. From the empty maps, a first message "Show Grades" of user 7 makes
  \<open>handleGrades\<close> read a property of \<open>undefined\<close>: a TypeError escapes, nothing is sent
  and the user still has no profile. A first message with any other text than \<open>/start\<close>
  leaves the user without a profile as well.
\<close>

theorem first_message_without_start_has_no_profile:
  "raised (handleMessage fetch (msg_of 7 show_grades_label) init) = Some TypeError
   \<and> sent (handleMessage fetch (msg_of 7 show_grades_label) init) = []
   \<and> users (state (handleMessage fetch (msg_of 7 show_grades_label) init)) 7 = None
   \<and> users (state (handleMessage fetch (msg_of 7 (js ''hello'')) init)) 7 = None
   \<and> users (state (handleMessage fetch (msg_of 7 (js ''/start'')) init)) 7 \<noteq> None"
proof -
  have labels: "show_grades_label \<noteq> js ''/start''" "show_grades_label \<noteq> js ''/help''"
      "show_grades_label \<noteq> help_label"
    by (simp_all add: show_grades_label_def help_label_def js_def)
  have button: "handleMessage fetch (msg_of 7 show_grades_label) init =
      \<lparr>state = init, sent = [], requests = [], raised = Some TypeError\<rparr>"
    using labels by (simp add: handleMessage_def handleGrades_def init_def msg_of_def)
  have hello: "js ''hello'' \<noteq> js ''/start''" "js ''hello'' \<noteq> js ''/help''"
      "js ''hello'' \<noteq> help_label" "js ''hello'' \<noteq> show_grades_label"
    by (simp_all add: show_grades_label_def help_label_def js_def)
  have other: "state (handleMessage fetch (msg_of 7 (js ''hello'')) init) = init"
    using hello by (simp add: handleMessage_def init_def msg_of_def)
  have start: "users (state (handleMessage fetch (msg_of 7 (js ''/start'')) init)) 7 \<noteq> None"
    by (simp add: handleMessage_def handleStart_def ensure_def init_def msg_of_def)
  show ?thesis
    using button other start by (simp add: init_def)
qed

text \<open>
  C9: the profile creation of \<open>handleStart\<close> is idempotent. A second call with the same
  identifier changes nothing, whatever name it is given; a profile that exists is
  returned as it is, with its stored credentials; a profile that is created has both
  credentials \<open>null\<close>.
\<close>

theorem ensure_idempotent:
  "ensure userId name' (ensure userId name us) = ensure userId name us
   \<and> (us userId = Some u \<longrightarrow> ensure userId name us = us)
   \<and> (us userId = None \<longrightarrow>
        ensure userId name us userId =
          Some \<lparr>telegramId = userId, firstName = name, portalUsername = None,
                portalPassword = None\<rparr>)
   \<and> users (state (handleStart msg' (state (handleStart msg s)))) (from_id msg) =
       users (state (handleStart msg s)) (from_id msg)"
proof -
  have twice: "ensure i n' (ensure i n m) = ensure i n m" for i n n' and m :: "int \<rightharpoonup> user"
    by (cases "m i") (simp_all add: ensure_def)
  have other: "ensure j n' m i = m i" if "j \<noteq> i" for i j n' and m :: "int \<rightharpoonup> user"
    using that by (cases "m j") (simp_all add: ensure_def)
  have kept: "ensure userId name us = us" if "us userId = Some u"
    using that by (simp add: ensure_def)
  have fresh: "ensure userId name us userId =
      Some \<lparr>telegramId = userId, firstName = name, portalUsername = None, portalPassword = None\<rparr>"
    if "us userId = None"
    using that by (simp add: ensure_def)
  have again: "users (state (handleStart msg' (state (handleStart msg s)))) (from_id msg) =
      users (state (handleStart msg s)) (from_id msg)"
  proof (cases "from_id msg' = from_id msg")
    case True
    then show ?thesis by (simp add: handleStart_def twice)
  next
    case False
    then show ?thesis by (simp add: handleStart_def other)
  qed
  show ?thesis
    using twice kept fresh again by blast
qed

text \<open>
  The theorem applied to a user without a profile and to a user whose profile stores
  credentials.
\<close>

theorem ensure_idempotent_witness:
  "ensure 7 (js ''Abebe'') (ensure 7 (js ''Abebe'') Map.empty) 7 =
     Some \<lparr>telegramId = 7, firstName = js ''Abebe'', portalUsername = None,
           portalPassword = None\<rparr>
   \<and> ensure 7 (js ''Kebede'') (users (bot_with_credentials 7 (js ''alice'') (js ''secret''))) =
       users (bot_with_credentials 7 (js ''alice'') (js ''secret''))"
proof -
  let ?stored = "\<lparr>telegramId = 7, firstName = js ''Abebe'', portalUsername = Some (js ''alice''),
      portalPassword = Some (js ''secret'')\<rparr>"
  have empty: "(Map.empty :: int \<rightharpoonup> user) 7 = None"
    by simp
  have stored: "users (bot_with_credentials 7 (js ''alice'') (js ''secret'')) 7 = Some ?stored"
    by (simp add: bot_with_credentials_def)
  show ?thesis
    using ensure_idempotent [of 7 "js ''Abebe''" "js ''Abebe''" Map.empty]
      ensure_idempotent [of 7 "js ''Kebede''" "js ''Kebede''"
        "users (bot_with_credentials 7 (js ''alice'') (js ''secret''))" ?stored]
      empty stored
    by simp
qed

text \<open>
  C4: in a state the bot reaches from the empty maps, a message with a text from a
  sender with an open stage is consumed as the awaited credential, whatever the text:
  awaiting the username, the trimmed text becomes the stored username, the stage becomes
  \<open>awaiting_password\<close> and the only message sent is "Username saved"; awaiting the
  password, the trimmed text becomes the stored password and the first message sent is
  "Password saved"; in both cases no welcome, menu or help text is sent and nothing is
  raised. With no open stage the text is dispatched: \<open>/start\<close>, \<open>/help\<close> or the help
  button, the grades button, and the main menu for any other text.
\<close>

theorem open_stage_consumes_any_text:
  assumes "s = run init evs"
    and "msg_text msg = Some t"
  shows "(userStates s (from_id msg) = Some awaiting_username \<longrightarrow>
           (\<exists>u. users s (from_id msg) = Some u
              \<and> users (state (handleMessage fetch msg s)) =
                  (users s)(from_id msg \<mapsto> u\<lparr>portalUsername := Some (trim t)\<rparr>))
           \<and> userStates (state (handleMessage fetch msg s)) =
               (userStates s)(from_id msg \<mapsto> awaiting_password)
           \<and> sent (handleMessage fetch msg s) = [sendMarkdown (chat_id msg) txt_username_saved]
           \<and> requests (handleMessage fetch msg s) = []
           \<and> raised (handleMessage fetch msg s) = None)
       \<and> (userStates s (from_id msg) = Some awaiting_password \<longrightarrow>
           (\<exists>u. users s (from_id msg) = Some u
              \<and> users (state (handleMessage fetch msg s)) =
                  (users s)(from_id msg \<mapsto> u\<lparr>portalPassword := Some (trim t)\<rparr>))
           \<and> (\<exists>replies. sent (handleMessage fetch msg s) =
                  sendMessage (chat_id msg) txt_password_saved # replies)
           \<and> (\<forall>m \<in> set (sent (handleMessage fetch msg s)).
                  body m \<notin> {txt_welcome, txt_menu, txt_help})
           \<and> raised (handleMessage fetch msg s) = None)
       \<and> (userStates s (from_id msg) = None \<longrightarrow>
           handleMessage fetch msg s =
             (if t = js ''/start'' then handleStart msg s
              else if t = js ''/help'' \<or> t = help_label then handleHelp msg s
              else if t = show_grades_label then handleGrades fetch msg s
              else \<lparr>state = s, sent = [showMainMenu (chat_id msg)], requests = [],
                    raised = None\<rparr>))"
proof (intro conjI impI)
  assume stage: "userStates s (from_id msg) = Some awaiting_username"
  then obtain u where u: "users s (from_id msg) = Some u"
    using run_stage_has_profile [of evs "from_id msg"] assms(1) by blast
  have r: "handleMessage fetch msg s =
      \<lparr>state = s\<lparr>users := (users s)(from_id msg \<mapsto> u\<lparr>portalUsername := Some (trim t)\<rparr>),
                  userStates := (userStates s)(from_id msg \<mapsto> awaiting_password)\<rparr>,
       sent = [sendMarkdown (chat_id msg) txt_username_saved], requests = [], raised = None\<rparr>"
    using stage u assms(2) by (simp add: handleMessage_def)
  show "\<exists>u. users s (from_id msg) = Some u
      \<and> users (state (handleMessage fetch msg s)) =
          (users s)(from_id msg \<mapsto> u\<lparr>portalUsername := Some (trim t)\<rparr>)"
    using u r by simp
  show "userStates (state (handleMessage fetch msg s)) =
      (userStates s)(from_id msg \<mapsto> awaiting_password)"
    using r by simp
  show "sent (handleMessage fetch msg s) = [sendMarkdown (chat_id msg) txt_username_saved]"
    using r by simp
  show "requests (handleMessage fetch msg s) = []"
    using r by simp
  show "raised (handleMessage fetch msg s) = None"
    using r by simp
next
  assume stage: "userStates s (from_id msg) = Some awaiting_password"
  then obtain u where u: "users s (from_id msg) = Some u"
    using run_stage_has_profile [of evs "from_id msg"] assms(1) by blast
  let ?s' = "s\<lparr>users := (users s)(from_id msg \<mapsto> u\<lparr>portalPassword := Some (trim t)\<rparr>),
               userStates := (userStates s)(from_id msg := None)\<rparr>"
  let ?g = "handleGrades fetch msg ?s'"
  have r: "handleMessage fetch msg s =
      ?g\<lparr>sent := sendMessage (chat_id msg) txt_password_saved # sent ?g\<rparr>"
    using stage u assms(2) by (simp add: handleMessage_def Let_def)
  show "\<exists>u. users s (from_id msg) = Some u
      \<and> users (state (handleMessage fetch msg s)) =
          (users s)(from_id msg \<mapsto> u\<lparr>portalPassword := Some (trim t)\<rparr>)"
    using u by (simp add: r handleGrades_users)
  show "\<exists>replies. sent (handleMessage fetch msg s) =
      sendMessage (chat_id msg) txt_password_saved # replies"
    by (simp add: r)
  show "\<forall>m \<in> set (sent (handleMessage fetch msg s)). body m \<notin> {txt_welcome, txt_menu, txt_help}"
    using handleGrades_sends_no_dispatch_text [of _ fetch msg ?s'] dispatch_texts_distinct(5)
    by (auto simp: r sendMessage_def)
  have "users ?s' (from_id msg) = Some (u\<lparr>portalPassword := Some (trim t)\<rparr>)"
    by simp
  then show "raised (handleMessage fetch msg s) = None"
    using handleGrades_raises_only_without_profile [of ?s' msg _ fetch] by (simp add: r)
next
  assume "userStates s (from_id msg) = None"
  then show "handleMessage fetch msg s =
      (if t = js ''/start'' then handleStart msg s
       else if t = js ''/help'' \<or> t = help_label then handleHelp msg s
       else if t = show_grades_label then handleGrades fetch msg s
       else \<lparr>state = s, sent = [showMainMenu (chat_id msg)], requests = [], raised = None\<rparr>)"
    using assms(2) by (auto simp: handleMessage_def)
qed

text \<open>
  The theorem applied to user 7 sending \<open>/help\<close> when asked for the username, \<open>/start\<close>
  when asked for the password, and \<open>/help\<close> with no open stage.
\<close>

theorem open_stage_consumes_any_text_witness:
  "sent (handleMessage portal_down (msg_of 7 (js ''/help'')) (run init conv_until_username)) =
     [sendMarkdown 7 txt_username_saved]
   \<and> map_option portalUsername
        (users (state (handleMessage portal_down (msg_of 7 (js ''/help''))
           (run init conv_until_username))) 7) = Some (Some (js ''/help''))
   \<and> map_option portalPassword
        (users (state (handleMessage portal_down (msg_of 7 (js ''/start''))
           (run init conv_until_password))) 7) = Some (Some (js ''/start''))
   \<and> handleMessage portal_down (msg_of 7 (js ''/help'')) (run init []) =
       handleHelp (msg_of 7 (js ''/help'')) (run init [])"
proof -
  have m: "msg_text (msg_of 7 t) = Some t" "from_id (msg_of 7 t) = 7" "chat_id (msg_of 7 t) = 7"
    for t
    by (simp_all add: msg_of_def)
  have st1: "userStates (run init conv_until_username) (from_id (msg_of 7 (js ''/help''))) =
      Some awaiting_username"
    by (simp add: conv_until_username_state m)
  have st2: "userStates (run init conv_until_password) (from_id (msg_of 7 (js ''/start''))) =
      Some awaiting_password"
    by (simp add: conv_until_password_state m)
  have st3: "userStates (run init []) (from_id (msg_of 7 (js ''/help''))) = None"
    by (simp add: init_def)
  have one: "sent (handleMessage portal_down (msg_of 7 (js ''/help'')) (run init conv_until_username)) =
       [sendMarkdown 7 txt_username_saved]
     \<and> map_option portalUsername
        (users (state (handleMessage portal_down (msg_of 7 (js ''/help''))
           (run init conv_until_username))) 7) = Some (Some (js ''/help''))"
    using open_stage_consumes_any_text [OF refl m(1), of conv_until_username "js ''/help''" portal_down]
      st1
    unfolding m trim_examples by auto
  have two: "map_option portalPassword
        (users (state (handleMessage portal_down (msg_of 7 (js ''/start''))
           (run init conv_until_password))) 7) = Some (Some (js ''/start''))"
    using open_stage_consumes_any_text [OF refl m(1), of conv_until_password "js ''/start''" portal_down]
      st2
    unfolding m trim_examples by auto
  have three: "handleMessage portal_down (msg_of 7 (js ''/help'')) (run init []) =
       handleHelp (msg_of 7 (js ''/help'')) (run init [])"
    using open_stage_consumes_any_text [OF refl m(1), of "[]" "js ''/help''" portal_down]
      st3 labels_distinct(5)
    by simp
  show ?thesis
    using one two three by blast
qed

text \<open>
  C3, as amended: a user with a profile that stores no credentials and with no open
  stage presses the grades button and then sends two texts, each non-empty after
  trimming. Whatever else the texts are, the stages of the user are none,
  \<open>awaiting_username\<close>, \<open>awaiting_password\<close>, none, and among all the messages sent
  exactly one asks for the username and exactly one asks for the password.
\<close>

theorem fresh_user_dialogue:
  assumes "users s userId = Some u"
    and "portalUsername u = None"
    and "portalPassword u = None"
    and "userStates s userId = None"
    and "from_id ask = userId" and "msg_text ask = Some show_grades_label"
    and "from_id first = userId" and "msg_text first = Some t1"
    and "from_id second = userId" and "msg_text second = Some t2"
    and "trim t1 \<noteq> []" and "trim t2 \<noteq> []"
  shows "stages userId s [(fetch1, ask), (fetch2, first), (fetch3, second)] =
           [None, Some awaiting_username, Some awaiting_password, None]
       \<and> length (filter is_PromptForUsername
             (all_sent s [(fetch1, ask), (fetch2, first), (fetch3, second)])) = 1
       \<and> length (filter is_PromptForPassword
             (all_sent s [(fetch1, ask), (fetch2, first), (fetch3, second)])) = 1"
proof -
  let ?s1 = "s\<lparr>userStates := (userStates s)(userId \<mapsto> awaiting_username)\<rparr>"
  let ?u2 = "u\<lparr>portalUsername := Some (trim t1)\<rparr>"
  let ?s2 = "?s1\<lparr>users := (users ?s1)(userId \<mapsto> ?u2),
                   userStates := (userStates ?s1)(userId \<mapsto> awaiting_password)\<rparr>"
  let ?u3 = "?u2\<lparr>portalPassword := Some (trim t2)\<rparr>"
  let ?s3 = "?s2\<lparr>users := (users ?s2)(userId \<mapsto> ?u3),
                   userStates := (userStates ?s2)(userId := None)\<rparr>"
  let ?g = "handleGrades fetch3 second ?s3"
  have r1: "handleMessage fetch1 ask s =
      \<lparr>state = ?s1, sent = [sendMarkdown (chat_id ask) txt_ask_username], requests = [],
       raised = None\<rparr>"
    using assms(1,2,4,5,6) labels_distinct
    by (simp add: handleMessage_def handleGrades_def truthy_def)
  have r2: "handleMessage fetch2 first ?s1 =
      \<lparr>state = ?s2, sent = [sendMarkdown (chat_id first) txt_username_saved], requests = [],
       raised = None\<rparr>"
    using assms(1,7,8) by (simp add: handleMessage_def)
  have r3: "handleMessage fetch3 second ?s2 =
      ?g\<lparr>sent := sendMessage (chat_id second) txt_password_saved # sent ?g\<rparr>"
    using assms(9,10) by (simp add: handleMessage_def Let_def)
  have u3: "users ?s3 (from_id second) = Some ?u3"
    using assms(9) by simp
  have c1: "truthy (portalUsername ?u3) = Some (trim t1)"
    using assms(11) by (simp add: truthy_def)
  have c2: "truthy (portalPassword ?u3) = Some (trim t2)"
    using assms(12) by (simp add: truthy_def)
  have g_state: "state ?g = ?s3"
    using u3 c1 c2 by (rule handleGrades_with_credentials(1))
  have g_quiet: "filter is_PromptForUsername (sent ?g) = []"
      "filter is_PromptForPassword (sent ?g) = []"
    using u3 c1 c2 by (rule handleGrades_no_prompt)+
  have e1: "state (handleMessage fetch1 ask s) = ?s1"
      "sent (handleMessage fetch1 ask s) = [sendMarkdown (chat_id ask) txt_ask_username]"
    unfolding r1 by simp_all
  have e2: "state (handleMessage fetch2 first ?s1) = ?s2"
      "sent (handleMessage fetch2 first ?s1) = [sendMarkdown (chat_id first) txt_username_saved]"
    unfolding r2 by simp_all
  have e3: "state (handleMessage fetch3 second ?s2) = ?s3"
      "sent (handleMessage fetch3 second ?s2) =
         sendMessage (chat_id second) txt_password_saved # sent ?g"
    unfolding r3 using g_state by simp_all
  have closed: "userStates ?s3 userId = None" "userStates ?s2 userId = Some awaiting_password"
      "userStates ?s1 userId = Some awaiting_username"
    by simp_all
  have "stages userId s [(fetch1, ask), (fetch2, first), (fetch3, second)] =
      [None, Some awaiting_username, Some awaiting_password, None]"
    unfolding stages_def outcomes.simps list.map e1 e2 e3 closed assms(4) ..
  moreover have "length (filter is_PromptForUsername
      (all_sent s [(fetch1, ask), (fetch2, first), (fetch3, second)])) = 1"
    unfolding all_sent_def outcomes.simps list.map e1 e2 e3
    using prompt_texts_distinct g_quiet(1)
    by (simp add: is_PromptForUsername_def sendMarkdown_def sendMessage_def)
  moreover have "length (filter is_PromptForPassword
      (all_sent s [(fetch1, ask), (fetch2, first), (fetch3, second)])) = 1"
    unfolding all_sent_def outcomes.simps list.map e1 e2 e3
    using prompt_texts_distinct g_quiet(2)
    by (simp add: is_PromptForPassword_def sendMarkdown_def sendMessage_def)
  ultimately show ?thesis
    by blast
qed

text \<open>
  The theorem applied to user 7 after \<open>/start\<close>, who answers \<open>/help\<close> and \<open>secret\<close>.
\<close>

theorem fresh_user_dialogue_witness:
  "stages 7 (bot_started 7)
      [(portal_down, msg_of 7 show_grades_label), (portal_down, msg_of 7 (js ''/help'')),
       (portal_down, msg_of 7 (js ''secret''))] =
     [None, Some awaiting_username, Some awaiting_password, None]
   \<and> length (filter is_PromptForUsername (all_sent (bot_started 7)
        [(portal_down, msg_of 7 show_grades_label), (portal_down, msg_of 7 (js ''/help'')),
         (portal_down, msg_of 7 (js ''secret''))])) = 1
   \<and> length (filter is_PromptForPassword (all_sent (bot_started 7)
        [(portal_down, msg_of 7 show_grades_label), (portal_down, msg_of 7 (js ''/help'')),
         (portal_down, msg_of 7 (js ''secret''))])) = 1"
proof -
  let ?u = "\<lparr>telegramId = 7, firstName = js ''Abebe'', portalUsername = None,
      portalPassword = None\<rparr>"
  have m: "msg_text (msg_of 7 t) = Some t" "from_id (msg_of 7 t) = 7" for t
    by (simp_all add: msg_of_def)
  have a1: "users (bot_started 7) 7 = Some ?u"
    by (simp add: bot_started_state)
  have a2: "portalUsername ?u = None"
    by simp
  have a3: "portalPassword ?u = None"
    by simp
  have a4: "userStates (bot_started 7) 7 = None"
    by (simp add: bot_started_state)
  have a11: "trim (js ''/help'') \<noteq> []"
    unfolding trim_examples by (simp add: js_def)
  have a12: "trim (js ''secret'') \<noteq> []"
    unfolding trim_examples by (simp add: js_def)
  show ?thesis
    by (rule fresh_user_dialogue [OF a1 a2 a3 a4 m(2) m(1) m(2) m(1) m(2) m(1) a11 a12])
qed

text \<open>
  C3 as stated, for any two texts, fails: when user 7 answers the username prompt with
  three spaces, the empty string is stored as the username; after the password
  \<open>secret\<close>, \<open>handleGrades\<close> finds the username falsy, opens \<open>awaiting_username\<close> again
  and asks for the username a second time.
\<close>

theorem blank_username_is_asked_again:
  "stages 7 (bot_started 7)
      [(portal_down, msg_of 7 show_grades_label), (portal_down, msg_of 7 (js ''   '')),
       (portal_down, msg_of 7 (js ''secret''))] =
     [None, Some awaiting_username, Some awaiting_password, Some awaiting_username]
   \<and> stages 7 (bot_started 7)
      [(portal_down, msg_of 7 show_grades_label), (portal_down, msg_of 7 (js ''   '')),
       (portal_down, msg_of 7 (js ''secret''))] \<noteq>
     [None, Some awaiting_username, Some awaiting_password, None]
   \<and> length (filter is_PromptForUsername (all_sent (bot_started 7)
        [(portal_down, msg_of 7 show_grades_label), (portal_down, msg_of 7 (js ''   '')),
         (portal_down, msg_of 7 (js ''secret''))])) = 2"
proof -
  let ?evs = "[(portal_down, msg_of 7 show_grades_label), (portal_down, msg_of 7 (js ''   '')),
       (portal_down, msg_of 7 (js ''secret''))]"
  let ?u = "\<lparr>telegramId = 7, firstName = js ''Abebe'', portalUsername = None,
      portalPassword = None\<rparr>"
  let ?s0 = "\<lparr>users = [7 \<mapsto> ?u], userStates = Map.empty\<rparr>"
  let ?s1 = "\<lparr>users = [7 \<mapsto> ?u], userStates = [7 \<mapsto> awaiting_username]\<rparr>"
  let ?s2 = "\<lparr>users = [7 \<mapsto> ?u\<lparr>portalUsername := Some []\<rparr>],
      userStates = [7 \<mapsto> awaiting_password]\<rparr>"
  let ?s3 = "\<lparr>users = [7 \<mapsto> ?u\<lparr>portalUsername := Some [],
        portalPassword := Some (js ''secret'')\<rparr>],
      userStates = [7 \<mapsto> awaiting_username]\<rparr>"
  have r1: "handleMessage portal_down (msg_of 7 show_grades_label) ?s0 =
      \<lparr>state = ?s1, sent = [sendMarkdown 7 txt_ask_username], requests = [], raised = None\<rparr>"
    using labels_distinct
    by (simp add: handleMessage_def handleGrades_def truthy_def msg_of_def)
  have r2: "handleMessage portal_down (msg_of 7 (js ''   '')) ?s1 =
      \<lparr>state = ?s2, sent = [sendMarkdown 7 txt_username_saved], requests = [], raised = None\<rparr>"
    by (simp add: handleMessage_def msg_of_def trim_examples)
  have r3: "handleMessage portal_down (msg_of 7 (js ''secret'')) ?s2 =
      \<lparr>state = ?s3,
       sent = [sendMessage 7 txt_password_saved, sendMarkdown 7 txt_ask_username],
       requests = [], raised = None\<rparr>"
    by (simp add: handleMessage_def handleGrades_def truthy_def msg_of_def trim_examples Let_def)
  have e1: "state (handleMessage portal_down (msg_of 7 show_grades_label) ?s0) = ?s1"
      "sent (handleMessage portal_down (msg_of 7 show_grades_label) ?s0) =
         [sendMarkdown 7 txt_ask_username]"
    unfolding r1 by simp_all
  have e2: "state (handleMessage portal_down (msg_of 7 (js ''   '')) ?s1) = ?s2"
      "sent (handleMessage portal_down (msg_of 7 (js ''   '')) ?s1) =
         [sendMarkdown 7 txt_username_saved]"
    unfolding r2 by simp_all
  have e3: "state (handleMessage portal_down (msg_of 7 (js ''secret'')) ?s2) = ?s3"
      "sent (handleMessage portal_down (msg_of 7 (js ''secret'')) ?s2) =
         [sendMessage 7 txt_password_saved, sendMarkdown 7 txt_ask_username]"
    unfolding r3 by simp_all
  have st: "stages 7 (bot_started 7) ?evs =
      [None, Some awaiting_username, Some awaiting_password, Some awaiting_username]"
    unfolding stages_def outcomes.simps list.map bot_started_state e1 e2 e3 by simp
  have prompts: "length (filter is_PromptForUsername (all_sent (bot_started 7) ?evs)) = 2"
    unfolding all_sent_def outcomes.simps list.map bot_started_state e1 e2 e3
    using prompt_texts_distinct
    by (simp add: is_PromptForUsername_def sendMarkdown_def sendMessage_def)
  show ?thesis
    using st prompts by simp
qed

end
